theory Spec2Isabelle
  imports Complex_Main "HOL-Library.AList"
begin

section \<open>The product-details handler of \<^verbatim>\<open>app.py\<close>\<close>

text \<open>
  The service has one function of substance, \<^verbatim>\<open>fetch_from_gemini\<close>, which both routes
  call. It talks to two things it does not own: the generation service
  (\<^verbatim>\<open>client.models.generate_content\<close>) and the standard library's \<^verbatim>\<open>json.loads\<close>.
  Both are parameters of the model, so every theorem below holds for every behaviour
  they may show. Each call to one of them is recorded in a list of events that the
  model returns beside the outcome.
\<close>

subsection \<open>JSON values and dictionaries\<close>

text \<open>
  What \<^verbatim>\<open>json.loads\<close> returns. The number type is left open (\<open>'n\<close>): Python reads a
  number as an \<^verbatim>\<open>int\<close> or a \<^verbatim>\<open>float\<close>, and the handler never looks at one. A \<^verbatim>\<open>dict\<close>
  is a list of key-value pairs in insertion order: \<open>AList.update\<close> is
  \<^verbatim>\<open>d[k] = v\<close> (in place when the key is there, appended otherwise), \<open>AList.delete\<close> is
  \<^verbatim>\<open>del d[k]\<close>, and \<open>k \<in> fst ` set d\<close> is \<^verbatim>\<open>k in d\<close>.
\<close>

datatype 'n json =
    JNull
  | JBool bool
  | JNum 'n
  | JStr string
  | JArr "'n json list"
  | JObj "(string \<times> 'n json) list"

type_synonym 'n dict = "(string \<times> 'n json) list"

subsection \<open>The request sent to the generation service\<close>

datatype GoogleSearch = GoogleSearch

record Tool =
  google_search :: "GoogleSearch option"

text \<open>\<open>tools\<close> is \<open>None\<close> when the keyword argument is left out.\<close>

record GenerateContentConfig =
  tools :: "Tool list option"
  temperature :: real

record request =
  model :: string
  contents :: string
  config :: GenerateContentConfig

subsection \<open>The reply of the generation service\<close>

text \<open>
  Only what the handler reads: \<^verbatim>\<open>response.text\<close> (a string or \<^verbatim>\<open>None\<close>) and the path
  \<^verbatim>\<open>response.candidates[0].grounding_metadata.grounding_chunks\<close>, every step of which
  may be \<^verbatim>\<open>None\<close>. A chunk either has no attribute \<^verbatim>\<open>web\<close> at all (\<open>NoWebAttr\<close>), or has
  one whose value is \<^verbatim>\<open>None\<close> or a web citation with an optional \<^verbatim>\<open>uri\<close> and \<^verbatim>\<open>title\<close>.
  The client library computes \<^verbatim>\<open>response.text\<close> from the first candidate; the model
  leaves the two fields independent, which allows every reply of the library and more.
\<close>

record GroundingChunkWeb =
  uri :: "string option"
  title :: "string option"

datatype GroundingChunk = NoWebAttr | Chunk "GroundingChunkWeb option"

record GroundingMetadata =
  grounding_chunks :: "GroundingChunk list option"

record Candidate =
  grounding_metadata :: "GroundingMetadata option"

record response =
  rtext :: "string option"
  candidates :: "Candidate list option"

subsection \<open>Exceptions, errors and events\<close>

text \<open>
  \<open>HTTPException status detail\<close> is the exception the handler raises itself;
  \<open>Uncaught x\<close> is an exception that leaves the handler because nothing catches it.
\<close>

datatype exn = TypeError | IndexError | AttributeError | JSONDecodeError string

datatype error = HTTPException nat string | Uncaught exn

datatype event = GenerateContent request | JsonLoads string

subsection \<open>String operations of Python\<close>

text \<open>
  \<^verbatim>\<open>s.find(c)\<close> and \<^verbatim>\<open>s.rfind(c)\<close> for a one-character \<^verbatim>\<open>c\<close>: the index of the first
  (last) occurrence, or \<open>-1\<close>.
\<close>

definition str_find :: "string \<Rightarrow> char \<Rightarrow> int" where
  "str_find s c =
     (if c \<in> set s then int (length (takeWhile (\<lambda>x. x \<noteq> c) s)) else - 1)"

definition str_rfind :: "string \<Rightarrow> char \<Rightarrow> int" where
  "str_rfind s c =
     (if c \<in> set s
      then int (length s) - 1 - int (length (takeWhile (\<lambda>x. x \<noteq> c) (rev s)))
      else - 1)"

text \<open>
  \<^verbatim>\<open>s[i:j]\<close>: a negative index counts from the end, and both are clipped to the string.
\<close>

definition py_slice :: "'a list \<Rightarrow> int \<Rightarrow> int \<Rightarrow> 'a list" where
  "py_slice xs i j =
     (let n = int (length xs);
          clip = (\<lambda>k. if k < 0 then max 0 (n + k) else min n k);
          a = clip i;
          b = clip j
      in take (nat (b - a)) (drop (nat a) xs))"

text \<open>\<^verbatim>\<open>str(b)\<close> of a \<^verbatim>\<open>bool\<close>, as an f-string formats it.\<close>

definition str_bool :: "bool \<Rightarrow> string" where
  "str_bool b = (if b then ''True'' else ''False'')"

subsection \<open>The prompt (lines 43 to 64)\<close>

definition NL :: string where
  "NL = [CHR 0x0A]"

definition build_prompt :: "string \<Rightarrow> string \<Rightarrow> string" where
  \<open>build_prompt product_name country =
     NL @
     ''    Search Google for a real product matching "'' @ product_name @
     ''" available for consumers in '' @ country @ ''.'' @ NL @
     ''    Based on the search results, generate a single JSON object with the exact structure below.'' @ NL @
     ''    Your entire response MUST be only this JSON object and nothing else.'' @ NL @
     NL @
     ''    {'' @ NL @
     ''        "productName": "string",'' @ NL @
     ''        "brand": "string",'' @ NL @
     ''        "description": "string (a detailed paragraph)",'' @ NL @
     ''        "category": "string",'' @ NL @
     ''        "price": "number",'' @ NL @
     ''        "currency": "string (e.g., USD, EUR, INR, based on the country)",'' @ NL @
     ''        "specifications": [{ "key": "string", "value": "string" }],'' @ NL @
     ''        "barcode": "string (a plausible 12 or 13-digit barcode)",'' @ NL @
     ''        "isEdible": "boolean",'' @ NL @
     ''        "healthBenefits": ["string"],'' @ NL @
     ''        "ingredients": ["string"],'' @ NL @
     ''        "manufacturedIn": "string (country name)",'' @ NL @
     ''        "availableStores": ["string (names of stores in the specified country)"],'' @ NL @
     ''        "visualDescription": "string"'' @ NL @
     ''    }'' @ NL @
     ''    ''\<close>

subsection \<open>The generation configuration (lines 66 to 74)\<close>

definition build_config :: "bool \<Rightarrow> GenerateContentConfig" where
  "build_config use_search =
     (if use_search
      then \<lparr>tools = Some [\<lparr>google_search = Some GoogleSearch\<rparr>], temperature = 0.5\<rparr>
      else \<lparr>tools = None, temperature = 0.5\<rparr>)"

subsection \<open>Reading the grounding metadata (lines 99 to 106)\<close>

text \<open>
  The loop over the chunks, with the list \<^verbatim>\<open>sources\<close> as accumulator. A chunk whose
  \<^verbatim>\<open>web\<close> is \<^verbatim>\<open>None\<close> passes \<^verbatim>\<open>hasattr\<close>, and \<^verbatim>\<open>chunk.web.uri\<close> then raises
  \<^verbatim>\<open>AttributeError\<close>. \<^verbatim>\<open>and\<close> evaluates \<^verbatim>\<open>title\<close> only when \<^verbatim>\<open>uri\<close> is true.
\<close>

fun read_chunks :: "GroundingChunk list \<Rightarrow> 'n json list \<Rightarrow> exn + 'n json list" where
  "read_chunks [] sources = Inr sources"
| "read_chunks (NoWebAttr # rest) sources = read_chunks rest sources"
| "read_chunks (Chunk None # rest) sources = Inl AttributeError"
| "read_chunks (Chunk (Some w) # rest) sources =
     (case uri w of
        None \<Rightarrow> read_chunks rest sources
      | Some u \<Rightarrow>
          if u = [] then read_chunks rest sources
          else (case title w of
                  None \<Rightarrow> read_chunks rest sources
                | Some t \<Rightarrow>
                    if t = [] then read_chunks rest sources
                    else read_chunks rest
                           (sources @ [JObj [(''uri'', JStr u), (''title'', JStr t)]])))"

text \<open>
  The body of the \<^verbatim>\<open>try\<close>: \<^verbatim>\<open>None[0]\<close> and a loop over \<^verbatim>\<open>None\<close> raise \<^verbatim>\<open>TypeError\<close>,
  \<^verbatim>\<open>[][0]\<close> raises \<^verbatim>\<open>IndexError\<close>, an attribute of \<^verbatim>\<open>None\<close> raises \<^verbatim>\<open>AttributeError\<close>.
\<close>

definition read_grounding :: "response \<Rightarrow> exn + 'n json list" where
  "read_grounding resp =
     (case candidates resp of
        None \<Rightarrow> Inl TypeError
      | Some [] \<Rightarrow> Inl IndexError
      | Some (c # _) \<Rightarrow>
          (case grounding_metadata c of
             None \<Rightarrow> Inl AttributeError
           | Some g \<Rightarrow>
               (case grounding_chunks g of
                  None \<Rightarrow> Inl TypeError
                | Some chunks \<Rightarrow> read_chunks chunks [])))"

text \<open>The \<^verbatim>\<open>try\<close> with its \<^verbatim>\<open>except Exception: sources = []\<close>.\<close>

definition get_sources :: "response \<Rightarrow> 'n json list" where
  "get_sources resp = (case read_grounding resp of Inl _ \<Rightarrow> [] | Inr sources \<Rightarrow> sources)"

subsection \<open>The handler (lines 42 to 113)\<close>

text \<open>The keyword arguments of the call of lines 77 to 81.\<close>

definition generate_content_args :: "string \<Rightarrow> string \<Rightarrow> bool \<Rightarrow> request" where
  "generate_content_args product_name country use_search =
     \<lparr>model = ''gemini-2.5-flash'', contents = build_prompt product_name country,
      config = build_config use_search\<rparr>"

text \<open>
  Lines 108 to 113 on the parsed value. The span that was parsed starts with a brace,
  so \<^verbatim>\<open>json.loads\<close> can only have returned a \<^verbatim>\<open>dict\<close>; on any other value the item
  assignment or deletion of these lines raises \<^verbatim>\<open>TypeError\<close>.
\<close>

definition finish :: "'n json \<Rightarrow> 'n json list \<Rightarrow> error + 'n dict" where
  "finish product_data sources =
     (case product_data of
        JObj d \<Rightarrow>
          Inr (AList.update ''sources'' (JArr sources)
                 (if ''visualDescription'' \<in> fst ` set d
                  then AList.delete ''visualDescription'' d else d))
      | _ \<Rightarrow> Inl (Uncaught TypeError))"

text \<open>
  \<open>generate_content\<close> answers a request with a reply, or with \<open>Inl e\<close> when the call raises
  an exception (an instance of \<^verbatim>\<open>Exception\<close>) whose \<^verbatim>\<open>str\<close> is \<open>e\<close>. \<open>loads\<close> answers a text with the parsed value, or with
  the exception it raises.
\<close>

definition fetch_from_gemini ::
  "(request \<Rightarrow> string + response) \<Rightarrow> (string \<Rightarrow> exn + 'n json) \<Rightarrow>
   string \<Rightarrow> string \<Rightarrow> bool \<Rightarrow> event list \<times> (error + 'n dict)" where
  "fetch_from_gemini generate_content loads product_name country use_search =
     (let req = generate_content_args product_name country use_search
      in case generate_content req of
           Inl e \<Rightarrow>
             ([GenerateContent req],
              Inl (HTTPException 500
                     (''Gemini API call failed (use_search='' @ str_bool use_search @
                      ''): '' @ e)))
         | Inr resp \<Rightarrow>
             (case rtext resp of
                None \<Rightarrow>
                  ([GenerateContent req],
                   Inl (HTTPException 500 ''Empty response from Gemini API''))
              | Some raw_text \<Rightarrow>
                  if raw_text = [] then
                    ([GenerateContent req],
                     Inl (HTTPException 500 ''Empty response from Gemini API''))
                  else
                    (let start = str_find raw_text CHR ''{'';
                         end = str_rfind raw_text CHR ''}''
                     in if start = - 1 \<or> end = - 1 \<or> end < start then
                          ([GenerateContent req],
                           Inl (HTTPException 500 ''No valid JSON found in response''))
                        else
                          (let span = py_slice raw_text start (end + 1)
                           in (case loads span of
                                 Inl x \<Rightarrow>
                                   ([GenerateContent req, JsonLoads span], Inl (Uncaught x))
                               | Inr product_data \<Rightarrow>
                                   ([GenerateContent req, JsonLoads span],
                                    finish product_data (get_sources resp)))))))"

subsection \<open>Reading the events\<close>

fun requests_sent :: "event list \<Rightarrow> request list" where
  "requests_sent [] = []"
| "requests_sent (GenerateContent r # es) = r # requests_sent es"
| "requests_sent (JsonLoads _ # es) = requests_sent es"

fun texts_parsed :: "event list \<Rightarrow> string list" where
  "texts_parsed [] = []"
| "texts_parsed (GenerateContent _ # es) = texts_parsed es"
| "texts_parsed (JsonLoads s # es) = s # texts_parsed es"

text \<open>A configuration offers web search when one of its tools is a Google search.\<close>

definition has_search_tool :: "GenerateContentConfig \<Rightarrow> bool" where
  "has_search_tool cfg =
     (case tools cfg of None \<Rightarrow> False | Some ts \<Rightarrow> list_ex (\<lambda>t. google_search t \<noteq> None) ts)"

text \<open>
  What the specification expects of one chunk: the entry \<open>{uri, title}\<close> when the chunk
  has a web citation with a non-empty \<open>uri\<close> and a non-empty \<open>title\<close>, and nothing
  otherwise. It is written from the specification's words, to be compared with the
  loop \<open>read_chunks\<close>.
\<close>

definition citation :: "GroundingChunk \<Rightarrow> 'n json list" where
  "citation chunk =
     (case chunk of
        Chunk (Some w) \<Rightarrow>
          (case (uri w, title w) of
             (Some u, Some t) \<Rightarrow>
               if u \<noteq> [] \<and> t \<noteq> [] then [JObj [(''uri'', JStr u), (''title'', JStr t)]] else []
           | _ \<Rightarrow> [])
      | _ \<Rightarrow> [])"

subsection \<open>Example services and replies\<close>

text \<open>A generation service that answers every request with one reply, and one that raises.\<close>

definition reply_with :: "response \<Rightarrow> request \<Rightarrow> string + response" where
  "reply_with resp req = Inr resp"

definition failing_call :: "string \<Rightarrow> request \<Rightarrow> string + response" where
  "failing_call msg req = Inl msg"

text \<open>
  A parser that knows the three JSON texts of the examples and rejects every other text.
  On the texts the examples hand to it, it answers as \<^verbatim>\<open>json.loads\<close> does.
\<close>

definition example_loads :: "string \<Rightarrow> exn + int json" where
  \<open>example_loads s =
     (if s = ''{"productName":"Widget","brand":"Acme"}'' then
        Inr (JObj [(''productName'', JStr ''Widget''), (''brand'', JStr ''Acme'')])
      else if s = ''{"productName":"Widget","visualDescription":"a blue box","sources":"none"}'' then
        Inr (JObj [(''productName'', JStr ''Widget''),
                   (''visualDescription'', JStr ''a blue box''),
                   (''sources'', JStr ''none'')])
      else if s = ''{"a":1}'' then Inr (JObj [(''a'', JNum 1)])
      else Inl (JSONDecodeError ''Expecting property name enclosed in double quotes''))\<close>

definition widget_reply :: response where
  \<open>widget_reply =
     \<lparr>rtext = Some ''Sure! {"productName":"Widget","brand":"Acme"} thanks'',
      candidates = Some [\<lparr>grounding_metadata = None\<rparr>]\<rparr>\<close>

definition described_reply :: response where
  \<open>described_reply =
     \<lparr>rtext = Some ''{"productName":"Widget","visualDescription":"a blue box","sources":"none"}'',
      candidates = Some [\<lparr>grounding_metadata = None\<rparr>]\<rparr>\<close>

definition empty_reply :: response where
  "empty_reply =
     \<lparr>rtext = Some [], candidates = Some [\<lparr>grounding_metadata = None\<rparr>]\<rparr>"

definition plain_reply :: response where
  "plain_reply =
     \<lparr>rtext = Some ''I could not find that product.'',
      candidates = Some [\<lparr>grounding_metadata = None\<rparr>]\<rparr>"

definition reversed_reply :: response where
  \<open>reversed_reply =
     \<lparr>rtext = Some ''} and then {'',
      candidates = Some [\<lparr>grounding_metadata = None\<rparr>]\<rparr>\<close>

definition braces_reply :: response where
  \<open>braces_reply =
     \<lparr>rtext = Some ''Use {braces}: {"a":1}'',
      candidates = Some [\<lparr>grounding_metadata = None\<rparr>]\<rparr>\<close>

definition broken_reply :: response where
  \<open>broken_reply =
     \<lparr>rtext = Some ''{not json}'',
      candidates = Some [\<lparr>grounding_metadata = None\<rparr>]\<rparr>\<close>

definition widget_text :: string where
  \<open>widget_text = ''Sure! {"productName":"Widget","brand":"Acme"} thanks''\<close>


definition acme_web :: GroundingChunkWeb where
  "acme_web = \<lparr>uri = Some ''https://acme.example/widget'', title = Some ''Acme Widget''\<rparr>"

definition shop_web :: GroundingChunkWeb where
  "shop_web = \<lparr>uri = Some ''https://shop.example/w'', title = Some ''Shop''\<rparr>"

definition cited_chunks :: "GroundingChunk list" where
  "cited_chunks =
     [Chunk (Some acme_web),
      NoWebAttr,
      Chunk (Some \<lparr>uri = Some ''https://untitled.example'', title = None\<rparr>),
      Chunk (Some \<lparr>uri = Some [], title = Some ''No address''\<rparr>),
      Chunk (Some shop_web)]"

definition cited_reply :: response where
  "cited_reply =
     \<lparr>rtext = Some widget_text,
      candidates = Some [\<lparr>grounding_metadata = Some \<lparr>grounding_chunks = Some cited_chunks\<rparr>\<rparr>]\<rparr>"

definition mixed_chunks :: "GroundingChunk list" where
  "mixed_chunks = [Chunk (Some acme_web), Chunk None]"

definition mixed_reply :: response where
  "mixed_reply =
     \<lparr>rtext = Some widget_text,
      candidates = Some [\<lparr>grounding_metadata = Some \<lparr>grounding_chunks = Some mixed_chunks\<rparr>\<rparr>]\<rparr>"

text \<open>
  A service that answers one request only, and raises on every other one: a run that
  returns its reply has sent it exactly that request.
\<close>

definition expecting :: "request \<Rightarrow> response \<Rightarrow> request \<Rightarrow> string + response" where
  "expecting wanted resp req = (if req = wanted then Inr resp else Inl ''unexpected request'')"

definition search_request :: request where
  "search_request =
     \<lparr>model = ''gemini-2.5-flash'', contents = build_prompt ''Widget'' ''Germany'',
      config = \<lparr>tools = Some [\<lparr>google_search = Some GoogleSearch\<rparr>], temperature = 0.5\<rparr>\<rparr>"

definition plain_request :: request where
  "plain_request =
     \<lparr>model = ''gemini-2.5-flash'', contents = build_prompt ''Widget'' ''Germany'',
      config = \<lparr>tools = None, temperature = 0.5\<rparr>\<rparr>"

section \<open>Properties\<close>

subsection \<open>Finding the braces\<close>

lemma takeWhile_neq_append:
  "c \<notin> set a \<Longrightarrow> takeWhile (\<lambda>x. x \<noteq> c) (a @ b) = a @ takeWhile (\<lambda>x. x \<noteq> c) b"
  by (induction a) auto

lemma str_find_absent: "c \<notin> set s \<Longrightarrow> str_find s c = - 1"
  by (simp add: str_find_def)

lemma str_rfind_absent: "c \<notin> set s \<Longrightarrow> str_rfind s c = - 1"
  by (simp add: str_rfind_def)

lemma str_find_first: "c \<notin> set pre \<Longrightarrow> str_find (pre @ c # rest) c = int (length pre)"
  by (simp add: str_find_def takeWhile_neq_append)

lemma str_rfind_last: "c \<notin> set post \<Longrightarrow> str_rfind (pre @ c # post) c = int (length pre)"
  by (simp add: str_rfind_def takeWhile_neq_append)

lemma str_find_lower:
  "c \<notin> set a \<Longrightarrow> c \<in> set b \<Longrightarrow> int (length a) \<le> str_find (a @ b) c"
  by (simp add: str_find_def takeWhile_neq_append)

lemma py_slice_middle:
  "py_slice (pre @ body @ post) (int (length pre)) (int (length pre) + int (length body)) = body"
  by (simp add: py_slice_def Let_def)

subsection \<open>The shape of a successful run\<close>

text \<open>
  A run that returns a record has called the service once and the parser once, the parser
  has returned an object, and the record is that object after lines 108 to 111.
\<close>

lemma fetch_success:
  assumes "fetch_from_gemini generate_content loads product_name country use_search
             = (events, Inr result)"
  shows "\<exists>resp txt d.
           generate_content (generate_content_args product_name country use_search) = Inr resp \<and>
           events = [GenerateContent (generate_content_args product_name country use_search),
                     JsonLoads txt] \<and>
           loads txt = Inr (JObj d) \<and>
           result = AList.update ''sources'' (JArr (get_sources resp))
                      (if ''visualDescription'' \<in> fst ` set d
                       then AList.delete ''visualDescription'' d else d)"
  using assms
  by (auto simp: fetch_from_gemini_def Let_def finish_def
      split: sum.splits option.splits if_splits json.splits)

lemma described_value:
  "snd (fetch_from_gemini (reply_with described_reply) example_loads ''Widget'' ''Germany'' False)
     = Inr [(''productName'', JStr ''Widget''), (''sources'', JArr [])]"
  by (simp add: fetch_from_gemini_def Let_def reply_with_def described_reply_def
      str_find_def str_rfind_def py_slice_def example_loads_def finish_def get_sources_def
      read_grounding_def)

subsection \<open>The description of the picture is never returned\<close>

text \<open>
  Claim C1. Whenever the handler returns a record, the record has no key
  \<open>visualDescription\<close>, whatever the parsed object held.
\<close>

theorem visual_description_removed:
  assumes "snd (fetch_from_gemini generate_content loads product_name country use_search)
             = Inr result"
  shows "''visualDescription'' \<notin> fst ` set result"
proof -
  obtain events where
    "fetch_from_gemini generate_content loads product_name country use_search
       = (events, Inr result)"
    using assms
    by (cases "fetch_from_gemini generate_content loads product_name country use_search") simp
  from fetch_success [OF this] obtain resp d where
    r: "result = AList.update ''sources'' (JArr (get_sources resp))
                  (if ''visualDescription'' \<in> fst ` set d
                   then AList.delete ''visualDescription'' d else d)"
    by blast
  show ?thesis
    unfolding r by (simp add: dom_update delete_notin_dom)
qed

text \<open>
  The parsed object of this reply has the keys \<open>productName\<close>, \<open>visualDescription\<close> and
  \<open>sources\<close>; the record returned has \<open>productName\<close> and \<open>sources\<close>.
\<close>

theorem visual_description_removed_witness:
  "snd (fetch_from_gemini (reply_with described_reply) example_loads ''Widget'' ''Germany'' False)
     = Inr [(''productName'', JStr ''Widget''), (''sources'', JArr [])]
   \<and> ''visualDescription''
       \<notin> fst ` set [(''productName'', JStr ''Widget''), (''sources'', JArr [] :: int json)]"
  using visual_description_removed [OF described_value] described_value by simp

subsection \<open>The request that is sent\<close>

text \<open>The reply of the widget example runs to the end, whatever the arguments.\<close>

lemma widget_reply_run:
  \<open>fetch_from_gemini (reply_with widget_reply) example_loads product_name country use_search =
     ([GenerateContent (generate_content_args product_name country use_search),
       JsonLoads ''{"productName":"Widget","brand":"Acme"}''],
      Inr [(''productName'', JStr ''Widget''), (''brand'', JStr ''Acme''),
           (''sources'', JArr [])])\<close>
  by (simp add: fetch_from_gemini_def Let_def reply_with_def widget_reply_def
      str_find_def str_rfind_def py_slice_def example_loads_def finish_def get_sources_def
      read_grounding_def)

text \<open>
  Claim C8. What the handler passes to the service is the request
  \<open>generate_content_args\<close>, and nothing else: two services that answer this request
  alike give the same run, and the answer to it decides the outcome (an exception of the
  call is the detail of the failure, a reply with no text is the empty-response failure).
  This request, the only one sent, has the model name, the prompt, and a configuration
  with the temperature 0.5 whose tools are the one Google search tool when \<open>use_search\<close>
  is true and are left out when it is false: it offers the web search exactly when
  \<open>use_search\<close> is true.
\<close>

theorem generation_config:
  "(generate_content (generate_content_args product_name country use_search)
      = generate_content' (generate_content_args product_name country use_search)
    \<longrightarrow> fetch_from_gemini generate_content loads product_name country use_search
        = fetch_from_gemini generate_content' loads product_name country use_search)
   \<and> (generate_content (generate_content_args product_name country use_search) = Inl e
    \<longrightarrow> snd (fetch_from_gemini generate_content loads product_name country use_search)
        = Inl (HTTPException 500
                 (''Gemini API call failed (use_search='' @
                  (if use_search then ''True'' else ''False'') @ ''): '' @ e)))
   \<and> (generate_content (generate_content_args product_name country use_search) = Inr resp
    \<longrightarrow> rtext resp = None
    \<longrightarrow> snd (fetch_from_gemini generate_content loads product_name country use_search)
        = Inl (HTTPException 500 ''Empty response from Gemini API''))
   \<and> requests_sent
       (fst (fetch_from_gemini generate_content loads product_name country use_search))
       = [generate_content_args product_name country use_search]
   \<and> generate_content_args product_name country use_search
       = \<lparr>model = ''gemini-2.5-flash'', contents = build_prompt product_name country,
          config = \<lparr>tools = (if use_search then Some [\<lparr>google_search = Some GoogleSearch\<rparr>]
                              else None),
                    temperature = 0.5\<rparr>\<rparr>
   \<and> temperature (config (generate_content_args product_name country use_search)) = 0.5
   \<and> has_search_tool (config (generate_content_args product_name country use_search))
       = use_search"
proof (intro conjI impI)
  assume "generate_content (generate_content_args product_name country use_search)
      = generate_content' (generate_content_args product_name country use_search)"
  then show "fetch_from_gemini generate_content loads product_name country use_search
        = fetch_from_gemini generate_content' loads product_name country use_search"
    by (simp add: fetch_from_gemini_def Let_def)
next
  assume "generate_content (generate_content_args product_name country use_search) = Inl e"
  then show "snd (fetch_from_gemini generate_content loads product_name country use_search)
        = Inl (HTTPException 500
                 (''Gemini API call failed (use_search='' @
                  (if use_search then ''True'' else ''False'') @ ''): '' @ e))"
    by (simp add: fetch_from_gemini_def Let_def str_bool_def)
next
  assume "generate_content (generate_content_args product_name country use_search) = Inr resp"
    and "rtext resp = None"
  then show "snd (fetch_from_gemini generate_content loads product_name country use_search)
        = Inl (HTTPException 500 ''Empty response from Gemini API'')"
    by (simp add: fetch_from_gemini_def Let_def)
next
  show "requests_sent
       (fst (fetch_from_gemini generate_content loads product_name country use_search))
       = [generate_content_args product_name country use_search]"
    by (simp add: fetch_from_gemini_def Let_def split: sum.split option.split)
next
  show "generate_content_args product_name country use_search
       = \<lparr>model = ''gemini-2.5-flash'', contents = build_prompt product_name country,
          config = \<lparr>tools = (if use_search then Some [\<lparr>google_search = Some GoogleSearch\<rparr>]
                              else None),
                    temperature = 0.5\<rparr>\<rparr>"
    by (simp add: generate_content_args_def build_config_def)
next
  show "temperature (config (generate_content_args product_name country use_search)) = 0.5"
    by (simp add: generate_content_args_def build_config_def)
next
  show "has_search_tool (config (generate_content_args product_name country use_search))
       = use_search"
    by (simp add: generate_content_args_def build_config_def has_search_tool_def)
qed

text \<open>
  A service that answers only the request with the search tool and the temperature 0.5
  is answered when \<open>use_search\<close> is true and raises when it is false; a service that
  answers only the request with no tools, the other way round.
\<close>

theorem generation_config_witness:
  "snd (fetch_from_gemini (expecting search_request widget_reply) example_loads
          ''Widget'' ''Germany'' True)
     = Inr [(''productName'', JStr ''Widget''), (''brand'', JStr ''Acme''),
            (''sources'', JArr [])]
   \<and> snd (fetch_from_gemini (expecting plain_request widget_reply) example_loads
          ''Widget'' ''Germany'' False)
     = Inr [(''productName'', JStr ''Widget''), (''brand'', JStr ''Acme''),
            (''sources'', JArr [])]
   \<and> snd (fetch_from_gemini (expecting search_request widget_reply) example_loads
          ''Widget'' ''Germany'' False)
     = Inl (HTTPException 500
              ''Gemini API call failed (use_search=False): unexpected request'')
   \<and> snd (fetch_from_gemini (expecting plain_request widget_reply) example_loads
          ''Widget'' ''Germany'' True)
     = Inl (HTTPException 500
              ''Gemini API call failed (use_search=True): unexpected request'')"
proof -
  have a: "generate_content_args ''Widget'' ''Germany'' True = search_request"
    by (simp add: generate_content_args_def build_config_def search_request_def)
  have b: "generate_content_args ''Widget'' ''Germany'' False = plain_request"
    by (simp add: generate_content_args_def build_config_def plain_request_def)
  have ne: "plain_request \<noteq> search_request"
    by (simp add: plain_request_def search_request_def)
  have s1: "expecting search_request widget_reply (generate_content_args ''Widget'' ''Germany'' True)
          = reply_with widget_reply (generate_content_args ''Widget'' ''Germany'' True)"
    by (simp add: a expecting_def reply_with_def)
  have s2: "expecting plain_request widget_reply (generate_content_args ''Widget'' ''Germany'' False)
          = reply_with widget_reply (generate_content_args ''Widget'' ''Germany'' False)"
    by (simp add: b expecting_def reply_with_def)
  have s3: "expecting search_request widget_reply (generate_content_args ''Widget'' ''Germany'' False)
          = Inl ''unexpected request''"
    using ne by (simp add: b expecting_def)
  have s4: "expecting plain_request widget_reply (generate_content_args ''Widget'' ''Germany'' True)
          = Inl ''unexpected request''"
    using ne by (simp add: a expecting_def)
  note t1 = generation_config
    [where generate_content = "expecting search_request widget_reply"
       and generate_content' = "reply_with widget_reply" and loads = example_loads
       and product_name = "''Widget''" and country = "''Germany''" and use_search = True,
     THEN conjunct1, rule_format, OF s1]
  note t2 = generation_config
    [where generate_content = "expecting plain_request widget_reply"
       and generate_content' = "reply_with widget_reply" and loads = example_loads
       and product_name = "''Widget''" and country = "''Germany''" and use_search = False,
     THEN conjunct1, rule_format, OF s2]
  note t3 = generation_config
    [where generate_content = "expecting search_request widget_reply" and loads = example_loads
       and product_name = "''Widget''" and country = "''Germany''" and use_search = False,
     THEN conjunct2, THEN conjunct1, rule_format, OF s3]
  note t4 = generation_config
    [where generate_content = "expecting plain_request widget_reply" and loads = example_loads
       and product_name = "''Widget''" and country = "''Germany''" and use_search = True,
     THEN conjunct2, THEN conjunct1, rule_format, OF s4]
  show ?thesis
    using t3 t4 by (simp add: t1 t2 widget_reply_run)
qed

subsection \<open>A service that raises\<close>

text \<open>
  Claim C5. When the call of the service raises, the handler raises an
  \<open>HTTPException\<close> of status 500 whose detail names the search mode of the attempt
  (\<open>use_search=True\<close> or \<open>use_search=False\<close>) before the text of the exception.
\<close>

theorem upstream_call_error:
  assumes "generate_content (generate_content_args product_name country use_search) = Inl e"
  shows "fetch_from_gemini generate_content loads product_name country use_search =
           ([GenerateContent (generate_content_args product_name country use_search)],
            Inl (HTTPException 500
                   (''Gemini API call failed (use_search='' @
                    (if use_search then ''True'' else ''False'') @ ''): '' @ e)))"
  using assms by (simp add: fetch_from_gemini_def Let_def str_bool_def)

theorem upstream_call_error_witness:
  "snd (fetch_from_gemini (failing_call ''429 quota exceeded'') example_loads ''Widget'' ''Germany'' True)
     = Inl (HTTPException 500 ''Gemini API call failed (use_search=True): 429 quota exceeded'')
   \<and> snd (fetch_from_gemini (failing_call ''429 quota exceeded'') example_loads ''Widget'' ''Germany'' False)
     = Inl (HTTPException 500 ''Gemini API call failed (use_search=False): 429 quota exceeded'')"
proof -
  have g: "failing_call ''429 quota exceeded'' (generate_content_args ''Widget'' ''Germany'' u)
             = Inl ''429 quota exceeded''" for u
    by (simp add: failing_call_def)
  show ?thesis
    using upstream_call_error
        [where generate_content = "failing_call ''429 quota exceeded''" and loads = example_loads,
         OF g [of True]]
      upstream_call_error
        [where generate_content = "failing_call ''429 quota exceeded''" and loads = example_loads,
         OF g [of False]]
    by simp
qed

subsection \<open>An empty reply\<close>

text \<open>
  Claim C4. When the text of the reply is \<^verbatim>\<open>None\<close> or empty, the handler raises the
  \<open>HTTPException\<close> of status 500 for an empty response; the braces are not looked for
  (the error is not the one of a missing span) and no text is handed to the parser.
\<close>

theorem empty_response_error:
  assumes "generate_content (generate_content_args product_name country use_search) = Inr resp"
    and "rtext resp = None \<or> rtext resp = Some []"
  shows "fetch_from_gemini generate_content loads product_name country use_search =
           ([GenerateContent (generate_content_args product_name country use_search)],
            Inl (HTTPException 500 ''Empty response from Gemini API''))
         \<and> texts_parsed
             (fst (fetch_from_gemini generate_content loads product_name country use_search)) = []"
  using assms by (auto simp: fetch_from_gemini_def Let_def)

theorem empty_response_error_witness:
  "rtext empty_reply = Some [] \<and>
   fetch_from_gemini (reply_with empty_reply) example_loads ''Widget'' ''Germany'' True =
     ([GenerateContent (generate_content_args ''Widget'' ''Germany'' True)],
      Inl (HTTPException 500 ''Empty response from Gemini API''))"
proof -
  have h: "rtext empty_reply = None \<or> rtext empty_reply = Some []"
    by (simp add: empty_reply_def)
  have g: "reply_with empty_reply (generate_content_args ''Widget'' ''Germany'' True) = Inr empty_reply"
    by (simp add: reply_with_def)
  show ?thesis
    using empty_response_error
      [where generate_content = "reply_with empty_reply" and loads = example_loads, OF g h]
    by (simp add: empty_reply_def)
qed

subsection \<open>A reply with no span of braces\<close>

text \<open>
  Claim C3. When the text of the reply is not empty and has no opening brace, or no
  closing brace, or its last closing brace stands before its first opening brace (no
  opening brace is to the left of the last closing one), the handler raises the
  \<open>HTTPException\<close> of status 500 for a missing JSON text, and no text is handed to the
  parser.
\<close>

theorem no_json_found:
  assumes "generate_content (generate_content_args product_name country use_search) = Inr resp"
    and "rtext resp = Some raw_text" and "raw_text \<noteq> []"
    and "CHR ''{'' \<notin> set raw_text \<or> CHR ''}'' \<notin> set raw_text \<or>
         (\<exists>a b. raw_text = a @ CHR ''}'' # b \<and> CHR ''}'' \<notin> set b \<and> CHR ''{'' \<notin> set a)"
  shows "fetch_from_gemini generate_content loads product_name country use_search =
           ([GenerateContent (generate_content_args product_name country use_search)],
            Inl (HTTPException 500 ''No valid JSON found in response''))
         \<and> texts_parsed
             (fst (fetch_from_gemini generate_content loads product_name country use_search)) = []"
proof -
  have guard: "str_find raw_text CHR ''{'' = - 1 \<or> str_rfind raw_text CHR ''}'' = - 1 \<or>
               str_rfind raw_text CHR ''}'' < str_find raw_text CHR ''{''"
    using assms(4)
  proof (elim disjE exE conjE)
    assume "CHR ''{'' \<notin> set raw_text"
    then show ?thesis by (simp add: str_find_absent)
  next
    assume "CHR ''}'' \<notin> set raw_text"
    then show ?thesis by (simp add: str_rfind_absent)
  next
    fix a b
    assume t: "raw_text = a @ CHR ''}'' # b" and b: "CHR ''}'' \<notin> set b"
      and a: "CHR ''{'' \<notin> set a"
    have r: "str_rfind raw_text CHR ''}'' = int (length a)"
      using b by (simp add: t str_rfind_last)
    show ?thesis
    proof (cases "CHR ''{'' \<in> set b")
      case True
      have "CHR ''{'' \<notin> set (a @ [CHR ''}''])" using a by simp
      from str_find_lower [OF this True]
      have "int (length a) + 1 \<le> str_find raw_text CHR ''{''" by (simp add: t)
      with r show ?thesis by simp
    next
      case False
      with a have "CHR ''{'' \<notin> set raw_text" by (simp add: t)
      then show ?thesis by (simp add: str_find_absent)
    qed
  qed
  show ?thesis
    using assms(1-3) guard by (auto simp: fetch_from_gemini_def Let_def)
qed

text \<open>A reply with no brace at all, and one whose only closing brace comes first.\<close>

theorem no_json_found_witness:
  \<open>CHR ''{'' \<notin> set ''I could not find that product.'' \<and>
   fetch_from_gemini (reply_with plain_reply) example_loads ''Widget'' ''Germany'' False =
     ([GenerateContent (generate_content_args ''Widget'' ''Germany'' False)],
      Inl (HTTPException 500 ''No valid JSON found in response'')) \<and>
   ''} and then {'' = [] @ CHR ''}'' # '' and then {'' \<and>
   fetch_from_gemini (reply_with reversed_reply) example_loads ''Widget'' ''Germany'' False =
     ([GenerateContent (generate_content_args ''Widget'' ''Germany'' False)],
      Inl (HTTPException 500 ''No valid JSON found in response''))\<close>
proof -
  have g: "reply_with r (generate_content_args ''Widget'' ''Germany'' False) = Inr r" for r
    by (simp add: reply_with_def)
  have t1: "rtext plain_reply = Some ''I could not find that product.''"
    by (simp add: plain_reply_def)
  have n1: "''I could not find that product.'' \<noteq> []" by simp
  have h1: \<open>CHR ''{'' \<notin> set ''I could not find that product.'' \<or>
            CHR ''}'' \<notin> set ''I could not find that product.'' \<or>
            (\<exists>a b. ''I could not find that product.'' = a @ CHR ''}'' # b \<and>
                   CHR ''}'' \<notin> set b \<and> CHR ''{'' \<notin> set a)\<close>
    by simp
  have t2: \<open>rtext reversed_reply = Some ''} and then {''\<close>
    by (simp add: reversed_reply_def)
  have n2: \<open>''} and then {'' \<noteq> []\<close> by simp
  have h2: \<open>CHR ''{'' \<notin> set ''} and then {'' \<or> CHR ''}'' \<notin> set ''} and then {'' \<or>
         (\<exists>a b. ''} and then {'' = a @ CHR ''}'' # b \<and> CHR ''}'' \<notin> set b \<and> CHR ''{'' \<notin> set a)\<close>
  proof -
    have \<open>''} and then {'' = [] @ CHR ''}'' # '' and then {'' \<and> CHR ''}'' \<notin> set '' and then {''
          \<and> CHR ''{'' \<notin> set []\<close>
      by simp
    then show ?thesis by blast
  qed
  show ?thesis
    using no_json_found
      [where generate_content = "reply_with plain_reply" and loads = example_loads,
       OF g t1 n1 h1]
      no_json_found
      [where generate_content = "reply_with reversed_reply" and loads = example_loads,
       OF g t2 n2 h2]
    by simp
qed

subsection \<open>The span between the braces\<close>

text \<open>
  When an opening brace stands before the last closing brace, with no opening brace
  before it, the text handed to the parser runs from the one to the other.
\<close>

lemma fetch_span:
  assumes "generate_content (generate_content_args product_name country use_search) = Inr resp"
    and "rtext resp = Some (pre @ CHR ''{'' # mid @ CHR ''}'' # post)"
    and "CHR ''{'' \<notin> set pre" and "CHR ''}'' \<notin> set post"
  shows "fetch_from_gemini generate_content loads product_name country use_search =
           ([GenerateContent (generate_content_args product_name country use_search),
             JsonLoads (CHR ''{'' # mid @ [CHR ''}''])],
            case loads (CHR ''{'' # mid @ [CHR ''}'']) of
              Inl x \<Rightarrow> Inl (Uncaught x)
            | Inr product_data \<Rightarrow> finish product_data (get_sources resp))"
proof -
  let ?t = "pre @ CHR ''{'' # mid @ CHR ''}'' # post"
  have s: "str_find ?t CHR ''{'' = int (length pre)"
    using assms(3) by (rule str_find_first)
  have "str_rfind ((pre @ CHR ''{'' # mid) @ CHR ''}'' # post) CHR ''}''
          = int (length (pre @ CHR ''{'' # mid))"
    using assms(4) by (rule str_rfind_last)
  then have e: "str_rfind ?t CHR ''}'' = int (length pre) + 1 + int (length mid)"
    by simp
  have "py_slice (pre @ (CHR ''{'' # mid @ [CHR ''}'']) @ post) (int (length pre))
          (int (length pre) + int (length (CHR ''{'' # mid @ [CHR ''}''])))
          = CHR ''{'' # mid @ [CHR ''}'']"
    by (rule py_slice_middle)
  then have sl: "py_slice ?t (str_find ?t CHR ''{'') (str_rfind ?t CHR ''}'' + 1)
                   = CHR ''{'' # mid @ [CHR ''}'']"
    by (simp add: s e add.commute add.left_commute)
  have guard: "\<not> (str_find ?t CHR ''{'' = - 1 \<or> str_rfind ?t CHR ''}'' = - 1 \<or>
                   str_rfind ?t CHR ''}'' < str_find ?t CHR ''{'')"
    by (simp add: s e)
  show ?thesis
    using assms(1,2) guard sl
    by (simp add: fetch_from_gemini_def Let_def split: sum.split)
qed

text \<open>
  Conversely, every text that is handed to the parser is such a span: the shape above
  is that of every run that comes to parse.
\<close>

lemma brace_split:
  assumes "a \<in> set t" and "b \<in> set t" and "a \<noteq> b"
    and "str_find t a \<le> str_rfind t b"
  shows "\<exists>pre mid post. t = pre @ a # mid @ b # post \<and> a \<notin> set pre \<and> b \<notin> set post"
proof -
  from split_list_first [OF assms(1)] obtain pre r where
    t1: "t = pre @ a # r" and p: "a \<notin> set pre" by blast
  from split_list_last [OF assms(2)] obtain front post where
    t2: "t = front @ b # post" and q: "b \<notin> set post" by blast
  have "str_find t a = int (length pre)"
    unfolding t1 using p by (rule str_find_first)
  moreover have "str_rfind t b = int (length front)"
    unfolding t2 using q by (rule str_rfind_last)
  ultimately have len: "length pre \<le> length front"
    using assms(4) by simp
  have "pre @ a # r = front @ b # post"
    using t1 t2 by simp
  then obtain us where us: "front = pre @ us" and r: "a # r = us @ b # post"
    using len by (auto simp: append_eq_append_conv2)
  from r assms(3) obtain mid where "us = a # mid" and "r = mid @ b # post"
    by (cases us) auto
  with t1 p q show ?thesis by auto
qed

lemma parsed_text_is_span:
  assumes "texts_parsed
             (fst (fetch_from_gemini generate_content loads product_name country use_search))
             = [jtext]"
    and "generate_content (generate_content_args product_name country use_search) = Inr resp"
  shows "\<exists>pre mid post.
           rtext resp = Some (pre @ CHR ''{'' # mid @ CHR ''}'' # post) \<and>
           CHR ''{'' \<notin> set pre \<and> CHR ''}'' \<notin> set post \<and>
           jtext = CHR ''{'' # mid @ [CHR ''}'']"
proof -
  from assms obtain t where t: "rtext resp = Some t"
    and g: "\<not> (str_find t CHR ''{'' = - 1 \<or> str_rfind t CHR ''}'' = - 1 \<or>
               str_rfind t CHR ''}'' < str_find t CHR ''{'')"
    by (auto simp: fetch_from_gemini_def Let_def split: option.splits if_splits)
  have a: "CHR ''{'' \<in> set t"
    using g by (auto simp: str_find_def split: if_splits)
  have b: "CHR ''}'' \<in> set t"
    using g by (auto simp: str_rfind_def split: if_splits)
  have le: "str_find t CHR ''{'' \<le> str_rfind t CHR ''}''"
    using g by simp
  from brace_split [OF a b _ le] obtain pre mid post where
    s: "t = pre @ CHR ''{'' # mid @ CHR ''}'' # post"
    and p: "CHR ''{'' \<notin> set pre" and q: "CHR ''}'' \<notin> set post"
    by auto
  have r: "rtext resp = Some (pre @ CHR ''{'' # mid @ CHR ''}'' # post)"
    using t s by simp
  from fetch_span
    [where generate_content = generate_content and loads = loads, OF assms(2) r p q]
  have "texts_parsed
          (fst (fetch_from_gemini generate_content loads product_name country use_search))
          = [CHR ''{'' # mid @ [CHR ''}'']]"
    by simp
  with assms(1) have "jtext = CHR ''{'' # mid @ [CHR ''}'']" by simp
  with r p q show ?thesis by blast
qed

text \<open>
  Claim C2, amended. Let the text of the reply be a text that starts with an opening
  brace and ends with a closing brace, with prose before it that has no opening brace and
  prose after it that has no closing brace. Then exactly that text is handed to the
  parser, and when the parser returns an object, the handler returns this object with
  the key \<open>visualDescription\<close> removed and the key \<open>sources\<close> set to the sources read from
  the reply.
\<close>

theorem span_extraction_exact:
  assumes "generate_content (generate_content_args product_name country use_search) = Inr resp"
    and "rtext resp = Some (pre @ CHR ''{'' # mid @ CHR ''}'' # post)"
    and "CHR ''{'' \<notin> set pre" and "CHR ''}'' \<notin> set post"
    and "loads (CHR ''{'' # mid @ [CHR ''}'']) = Inr (JObj d)"
  shows "fetch_from_gemini generate_content loads product_name country use_search =
           ([GenerateContent (generate_content_args product_name country use_search),
             JsonLoads (CHR ''{'' # mid @ [CHR ''}''])],
            Inr (AList.update ''sources'' (JArr (get_sources resp))
                   (AList.delete ''visualDescription'' d)))"
  using fetch_span [where generate_content = generate_content and loads = loads, OF assms(1-4)]
    assms(5)
  by (simp add: finish_def)

text \<open>
  The example of the specification: the span of the reply \<open>Sure! {...} thanks\<close> is the
  JSON text alone, and the record is the parsed object with \<open>sources\<close> empty (the reply
  has no grounding metadata).
\<close>

theorem span_extraction_exact_witness:
  \<open>fetch_from_gemini (reply_with widget_reply) example_loads ''Widget'' ''Germany'' False =
     ([GenerateContent (generate_content_args ''Widget'' ''Germany'' False),
       JsonLoads ''{"productName":"Widget","brand":"Acme"}''],
      Inr [(''productName'', JStr ''Widget''), (''brand'', JStr ''Acme''), (''sources'', JArr [])])\<close>
proof -
  have g: "reply_with widget_reply (generate_content_args ''Widget'' ''Germany'' False)
             = Inr widget_reply"
    by (simp add: reply_with_def)
  have t: \<open>rtext widget_reply =
             Some (''Sure! '' @ CHR ''{'' # ''"productName":"Widget","brand":"Acme"'' @ CHR ''}'' # '' thanks'')\<close>
    by (simp add: widget_reply_def)
  have p: \<open>CHR ''{'' \<notin> set ''Sure! ''\<close> and q: \<open>CHR ''}'' \<notin> set '' thanks''\<close>
    by simp_all
  have l: \<open>example_loads (CHR ''{'' # ''"productName":"Widget","brand":"Acme"'' @ [CHR ''}''])
             = Inr (JObj [(''productName'', JStr ''Widget''), (''brand'', JStr ''Acme'')])\<close>
    by (simp add: example_loads_def)
  have s: "get_sources widget_reply = ([] :: int json list)"
    by (simp add: get_sources_def read_grounding_def widget_reply_def)
  show ?thesis
    using span_extraction_exact
      [where generate_content = "reply_with widget_reply" and loads = example_loads,
       OF g t p q l]
    by (simp add: s)
qed

text \<open>
  As first stated, with any prose around the object, the claim fails: in the reply
  \<open>Use {braces}: {"a":1}\<close> the object \<open>{"a":1}\<close> is well formed, but the span starts at the
  brace of the prose, and the parser rejects it (as \<^verbatim>\<open>json.loads\<close> does).
\<close>

theorem widest_span_counterexample:
  \<open>rtext braces_reply = Some (''Use {braces}: '' @ ''{"a":1}'' @ []) \<and>
   example_loads ''{"a":1}'' = Inr (JObj [(''a'', JNum 1)]) \<and>
   fetch_from_gemini (reply_with braces_reply) example_loads ''Widget'' ''Germany'' False =
     ([GenerateContent (generate_content_args ''Widget'' ''Germany'' False),
       JsonLoads ''{braces}: {"a":1}''],
      Inl (Uncaught (JSONDecodeError ''Expecting property name enclosed in double quotes'')))\<close>
  by (simp add: fetch_from_gemini_def Let_def reply_with_def braces_reply_def
      str_find_def str_rfind_def py_slice_def example_loads_def)

subsection \<open>A span that does not parse\<close>

text \<open>
  Claim C9. When a span is found and the parser raises on it, the handler does not raise
  an \<open>HTTPException\<close> of status 500, as it does for the three other failures: the
  exception of the parser leaves the handler as it is, uncaught.
\<close>

theorem parse_error_uncaught:
  assumes "generate_content (generate_content_args product_name country use_search) = Inr resp"
    and "rtext resp = Some (pre @ CHR ''{'' # mid @ CHR ''}'' # post)"
    and "CHR ''{'' \<notin> set pre" and "CHR ''}'' \<notin> set post"
    and "loads (CHR ''{'' # mid @ [CHR ''}'']) = Inl x"
  shows "fetch_from_gemini generate_content loads product_name country use_search =
           ([GenerateContent (generate_content_args product_name country use_search),
             JsonLoads (CHR ''{'' # mid @ [CHR ''}''])],
            Inl (Uncaught x))
         \<and> snd (fetch_from_gemini generate_content loads product_name country use_search)
             \<noteq> Inl (HTTPException status detail)"
  using fetch_span [where generate_content = generate_content and loads = loads, OF assms(1-4)]
    assms(5)
  by simp

theorem parse_error_uncaught_witness:
  \<open>fetch_from_gemini (reply_with broken_reply) example_loads ''Widget'' ''Germany'' False =
     ([GenerateContent (generate_content_args ''Widget'' ''Germany'' False),
       JsonLoads ''{not json}''],
      Inl (Uncaught (JSONDecodeError ''Expecting property name enclosed in double quotes'')))\<close>
proof -
  have g: "reply_with broken_reply (generate_content_args ''Widget'' ''Germany'' False)
             = Inr broken_reply"
    by (simp add: reply_with_def)
  have t: \<open>rtext broken_reply = Some ([] @ CHR ''{'' # ''not json'' @ CHR ''}'' # [])\<close>
    by (simp add: broken_reply_def)
  have p: \<open>CHR ''{'' \<notin> set []\<close> and q: \<open>CHR ''}'' \<notin> set []\<close>
    by simp_all
  have l: \<open>example_loads (CHR ''{'' # ''not json'' @ [CHR ''}''])
             = Inl (JSONDecodeError ''Expecting property name enclosed in double quotes'')\<close>
    by (simp add: example_loads_def)
  show ?thesis
    using parse_error_uncaught
      [where generate_content = "reply_with broken_reply" and loads = example_loads
         and status = 500 and detail = "[]",
       OF g t p q l]
    by simp
qed

subsection \<open>The sources\<close>


lemma read_chunks_reads:
  "Chunk None \<notin> set chunks \<Longrightarrow>
   read_chunks chunks acc = Inr (acc @ concat (map citation chunks))"
  by (induction chunks acc rule: read_chunks.induct)
     (auto simp: citation_def split: option.splits)


text \<open>Every reply with the text of the widget example runs to the end.\<close>

lemma widget_run:
  assumes "rtext resp = Some widget_text"
  shows \<open>fetch_from_gemini (reply_with resp) example_loads product_name country use_search =
     ([GenerateContent (generate_content_args product_name country use_search),
       JsonLoads ''{"productName":"Widget","brand":"Acme"}''],
      Inr [(''productName'', JStr ''Widget''), (''brand'', JStr ''Acme''),
           (''sources'', JArr (get_sources resp))])\<close>
  using assms
  by (simp add: fetch_from_gemini_def Let_def reply_with_def widget_text_def
      str_find_def str_rfind_def py_slice_def example_loads_def finish_def)



text \<open>
  Claim C7, amended. Let the grounding metadata of the reply be a list of chunks none of
  which has a \<^verbatim>\<open>web\<close> that is \<^verbatim>\<open>None\<close>. Then the \<open>sources\<close> of the returned record are
  the entries \<open>{uri, title}\<close> of the chunks whose web citation has a non-empty \<open>uri\<close> and
  a non-empty \<open>title\<close>, one for each, in the order of the chunks; no other chunk has an
  entry.
\<close>

theorem sources_follow_chunks:
  assumes "generate_content (generate_content_args product_name country use_search) = Inr resp"
    and "candidates resp = Some (c # cs)"
    and "grounding_metadata c = Some g"
    and "grounding_chunks g = Some chunks"
    and "Chunk None \<notin> set chunks"
    and "snd (fetch_from_gemini generate_content loads product_name country use_search)
           = Inr result"
  shows "map_of result ''sources'' = Some (JArr (concat (map citation chunks)))"
proof -
  obtain events where
    "fetch_from_gemini generate_content loads product_name country use_search
       = (events, Inr result)"
    using assms(6)
    by (cases "fetch_from_gemini generate_content loads product_name country use_search") simp
  from fetch_success [OF this] assms(1) obtain d where
    r: "result = AList.update ''sources'' (JArr (get_sources resp))
                  (if ''visualDescription'' \<in> fst ` set d
                   then AList.delete ''visualDescription'' d else d)"
    by auto
  have "read_grounding resp = (Inr (concat (map citation chunks)) :: exn + 'a json list)"
    using assms(2-4) read_chunks_reads [OF assms(5), of "[]"]
    by (simp add: read_grounding_def)
  then have "get_sources resp = (concat (map citation chunks) :: 'a json list)"
    by (simp add: get_sources_def)
  then show ?thesis
    unfolding r by (simp add: update_conv')
qed

text \<open>
  Five chunks: two with both fields, one with no \<^verbatim>\<open>web\<close>, one with no title, one with an
  empty \<open>uri\<close>. The sources are the first and the last, in this order.
\<close>

theorem sources_follow_chunks_witness:
  "snd (fetch_from_gemini (reply_with cited_reply) example_loads ''Widget'' ''Germany'' True)
     = Inr [(''productName'', JStr ''Widget''), (''brand'', JStr ''Acme''),
            (''sources'',
             JArr [JObj [(''uri'', JStr ''https://acme.example/widget''),
                         (''title'', JStr ''Acme Widget'')],
                   JObj [(''uri'', JStr ''https://shop.example/w''),
                         (''title'', JStr ''Shop'')]])]
   \<and> map_of [(''productName'', JStr ''Widget''), (''brand'', JStr ''Acme''),
            (''sources'',
             JArr [JObj [(''uri'', JStr ''https://acme.example/widget''),
                         (''title'', JStr ''Acme Widget'')],
                   JObj [(''uri'', JStr ''https://shop.example/w''),
                         (''title'', JStr ''Shop'')]])] ''sources''
       = Some (JArr (concat (map citation cited_chunks)) :: int json)"
proof -
  have t: "rtext cited_reply = Some widget_text"
    by (simp add: cited_reply_def)
  have s: "get_sources cited_reply =
             [JObj [(''uri'', JStr ''https://acme.example/widget''),
                    (''title'', JStr ''Acme Widget'')],
              JObj [(''uri'', JStr ''https://shop.example/w''),
                    (''title'', JStr ''Shop'') :: string \<times> int json]]"
    by (simp add: get_sources_def read_grounding_def cited_reply_def cited_chunks_def
        acme_web_def shop_web_def)
  have v: "snd (fetch_from_gemini (reply_with cited_reply) example_loads ''Widget'' ''Germany'' True)
     = Inr [(''productName'', JStr ''Widget''), (''brand'', JStr ''Acme''),
            (''sources'',
             JArr [JObj [(''uri'', JStr ''https://acme.example/widget''),
                         (''title'', JStr ''Acme Widget'')],
                   JObj [(''uri'', JStr ''https://shop.example/w''),
                         (''title'', JStr ''Shop'')]])]"
    by (simp add: widget_run [OF t] s)
  have g: "reply_with cited_reply (generate_content_args ''Widget'' ''Germany'' True)
             = Inr cited_reply"
    by (simp add: reply_with_def)
  have c: "candidates cited_reply
             = Some (\<lparr>grounding_metadata = Some \<lparr>grounding_chunks = Some cited_chunks\<rparr>\<rparr> # [])"
    by (simp add: cited_reply_def)
  have m: "grounding_metadata \<lparr>grounding_metadata = Some \<lparr>grounding_chunks = Some cited_chunks\<rparr>\<rparr>
             = Some \<lparr>grounding_chunks = Some cited_chunks\<rparr>"
    by simp
  have k: "grounding_chunks \<lparr>grounding_chunks = Some cited_chunks\<rparr> = Some cited_chunks"
    by simp
  have n: "Chunk None \<notin> set cited_chunks"
    by (simp add: cited_chunks_def)
  show ?thesis
    using sources_follow_chunks
      [where generate_content = "reply_with cited_reply" and loads = example_loads,
       OF g c m k n v] v
    by simp
qed

text \<open>
  As first stated, for every list of chunks, the claim fails: after a chunk with both
  fields, a chunk whose \<^verbatim>\<open>web\<close> is \<^verbatim>\<open>None\<close> raises, the \<^verbatim>\<open>except\<close> empties the list, and
  the citation of the first chunk is lost.
\<close>

theorem dropped_sources_counterexample:
  "grounding_chunks \<lparr>grounding_chunks = Some mixed_chunks\<rparr> = Some mixed_chunks
   \<and> concat (map citation mixed_chunks)
       = [JObj [(''uri'', JStr ''https://acme.example/widget''),
                (''title'', JStr ''Acme Widget'') :: string \<times> int json]]
   \<and> snd (fetch_from_gemini (reply_with mixed_reply) example_loads ''Widget'' ''Germany'' True)
       = Inr [(''productName'', JStr ''Widget''), (''brand'', JStr ''Acme''),
              (''sources'', JArr [])]"
proof -
  have t: "rtext mixed_reply = Some widget_text"
    by (simp add: mixed_reply_def)
  have s: "get_sources mixed_reply = ([] :: int json list)"
    by (simp add: get_sources_def read_grounding_def mixed_reply_def mixed_chunks_def
        acme_web_def)
  show ?thesis
    by (simp add: widget_run [OF t] s mixed_chunks_def citation_def acme_web_def)
qed

subsection \<open>What the record keeps of the parsed object\<close>

text \<open>A run that has parsed one text, with both of its events.\<close>

lemma fetch_parsed_run:
  assumes "texts_parsed (fst (fetch_from_gemini generate_content loads product_name country use_search)) = [jtext]"
    and "generate_content (generate_content_args product_name country use_search) = Inr resp"
  shows "fetch_from_gemini generate_content loads product_name country use_search =
           ([GenerateContent (generate_content_args product_name country use_search),
             JsonLoads jtext],
            case loads jtext of
              Inl x \<Rightarrow> Inl (Uncaught x)
            | Inr product_data \<Rightarrow> finish product_data (get_sources resp))"
  using assms
  by (auto simp: fetch_from_gemini_def Let_def split: sum.splits option.splits if_splits)

text \<open>Lines 108 to 113 on an object: what the record keeps, and what it replaces.\<close>

lemma finish_frame:
  "\<exists>result. finish (JObj d) sources = Inr result \<and>
     (\<forall>k. k \<noteq> ''visualDescription'' \<and> k \<noteq> ''sources'' \<longrightarrow> map_of result k = map_of d k) \<and>
     map_of result ''sources'' = Some (JArr sources) \<and>
     map_of result ''visualDescription'' = None"
  by (simp add: finish_def update_conv' delete_conv' map_of_eq_None_iff dom_update
      delete_notin_dom)

lemma described_run:
  \<open>fetch_from_gemini (reply_with described_reply) example_loads ''Widget'' ''Germany'' False
     = ([GenerateContent (generate_content_args ''Widget'' ''Germany'' False),
         JsonLoads ''{"productName":"Widget","visualDescription":"a blue box","sources":"none"}''],
        Inr [(''productName'', JStr ''Widget''), (''sources'', JArr [])])\<close>
  by (simp add: fetch_from_gemini_def Let_def reply_with_def described_reply_def
      str_find_def str_rfind_def py_slice_def example_loads_def finish_def get_sources_def
      read_grounding_def)

text \<open>
  Claim C10. Let the parser be handed a text (the one the events show, or the span of the
  reply from its first opening brace to its last closing brace) and return an object for
  it. Then the handler returns a record. Every key other than \<open>visualDescription\<close> and
  \<open>sources\<close> has in the record the value it has in the object, and is absent from the
  record when absent from the object; the key \<open>sources\<close> has the sources read from the
  grounding metadata, whatever the object held under it; the key \<open>visualDescription\<close> is
  absent.
\<close>

theorem record_frame:
  assumes "generate_content (generate_content_args product_name country use_search) = Inr resp"
    and "texts_parsed
           (fst (fetch_from_gemini generate_content loads product_name country use_search))
           = [jtext]
         \<or> (\<exists>pre mid post.
               rtext resp = Some (pre @ CHR ''{'' # mid @ CHR ''}'' # post) \<and>
               CHR ''{'' \<notin> set pre \<and> CHR ''}'' \<notin> set post \<and>
               jtext = CHR ''{'' # mid @ [CHR ''}''])"
    and "loads jtext = Inr (JObj d)"
  shows "\<exists>result.
           fetch_from_gemini generate_content loads product_name country use_search =
             ([GenerateContent (generate_content_args product_name country use_search),
               JsonLoads jtext],
              Inr result) \<and>
           (\<forall>k. k \<noteq> ''visualDescription'' \<and> k \<noteq> ''sources'' \<longrightarrow>
                map_of result k = map_of d k) \<and>
           map_of result ''sources'' = Some (JArr (get_sources resp)) \<and>
           map_of result ''visualDescription'' = None"
proof -
  have run: "fetch_from_gemini generate_content loads product_name country use_search =
           ([GenerateContent (generate_content_args product_name country use_search),
             JsonLoads jtext],
            finish (JObj d) (get_sources resp))"
    using assms(2)
  proof
    assume "texts_parsed
           (fst (fetch_from_gemini generate_content loads product_name country use_search))
           = [jtext]"
    from fetch_parsed_run [OF this assms(1)] assms(3) show ?thesis by simp
  next
    assume "\<exists>pre mid post.
               rtext resp = Some (pre @ CHR ''{'' # mid @ CHR ''}'' # post) \<and>
               CHR ''{'' \<notin> set pre \<and> CHR ''}'' \<notin> set post \<and>
               jtext = CHR ''{'' # mid @ [CHR ''}'']"
    then obtain pre mid post where
      t: "rtext resp = Some (pre @ CHR ''{'' # mid @ CHR ''}'' # post)"
      and p: "CHR ''{'' \<notin> set pre" and q: "CHR ''}'' \<notin> set post"
      and j: "jtext = CHR ''{'' # mid @ [CHR ''}'']"
      by (elim exE conjE)
    from fetch_span
      [where generate_content = generate_content and loads = loads, OF assms(1) t p q]
      assms(3)
    show ?thesis by (simp add: j)
  qed
  from finish_frame [of d "get_sources resp"] obtain result where
    "finish (JObj d) (get_sources resp) = Inr result"
    "\<forall>k. k \<noteq> ''visualDescription'' \<and> k \<noteq> ''sources'' \<longrightarrow> map_of result k = map_of d k"
    "map_of result ''sources'' = Some (JArr (get_sources resp))"
    "map_of result ''visualDescription'' = None"
    by (elim exE conjE)
  with run show ?thesis by simp
qed

text \<open>
  The run on a reply whose object has \<open>sources\<close> set to a string and a
  \<open>visualDescription\<close>: the record keeps \<open>productName\<close>, gains no \<open>brand\<close>, and has the
  empty list of sources in the place of the string.
\<close>

theorem record_frame_witness:
  \<open>example_loads ''{"productName":"Widget","visualDescription":"a blue box","sources":"none"}''
     = Inr (JObj [(''productName'', JStr ''Widget''),
                  (''visualDescription'', JStr ''a blue box''),
                  (''sources'', JStr ''none'')])
   \<and> fetch_from_gemini (reply_with described_reply) example_loads ''Widget'' ''Germany'' False
     = ([GenerateContent (generate_content_args ''Widget'' ''Germany'' False),
         JsonLoads ''{"productName":"Widget","visualDescription":"a blue box","sources":"none"}''],
        Inr [(''productName'', JStr ''Widget''), (''sources'', JArr [])])
   \<and> (\<exists>result.
         snd (fetch_from_gemini (reply_with described_reply) example_loads
                ''Widget'' ''Germany'' False) = Inr result
         \<and> map_of result ''productName'' = Some (JStr ''Widget'')
         \<and> map_of result ''brand'' = None
         \<and> map_of result ''sources'' = Some (JArr [])
         \<and> map_of result ''visualDescription'' = None)\<close>
proof -
  have g: "reply_with described_reply (generate_content_args ''Widget'' ''Germany'' False)
             = Inr described_reply"
    by (simp add: reply_with_def)
  have l: \<open>example_loads
             ''{"productName":"Widget","visualDescription":"a blue box","sources":"none"}''
           = Inr (JObj [(''productName'', JStr ''Widget''),
                        (''visualDescription'', JStr ''a blue box''),
                        (''sources'', JStr ''none'')])\<close>
    by (simp add: example_loads_def)
  have h: \<open>texts_parsed
           (fst (fetch_from_gemini (reply_with described_reply) example_loads
                   ''Widget'' ''Germany'' False))
           = [''{"productName":"Widget","visualDescription":"a blue box","sources":"none"}'']
         \<or> (\<exists>pre mid post.
               rtext described_reply = Some (pre @ CHR ''{'' # mid @ CHR ''}'' # post) \<and>
               CHR ''{'' \<notin> set pre \<and> CHR ''}'' \<notin> set post \<and>
               ''{"productName":"Widget","visualDescription":"a blue box","sources":"none"}''
                 = CHR ''{'' # mid @ [CHR ''}''])\<close>
  proof (rule disjI2, intro exI conjI)
    show \<open>rtext described_reply
            = Some ([] @ CHR ''{'' #
                    ''"productName":"Widget","visualDescription":"a blue box","sources":"none"''
                    @ CHR ''}'' # [])\<close>
      by (simp add: described_reply_def)
    show "CHR ''{'' \<notin> set []" by simp
    show "CHR ''}'' \<notin> set []" by simp
    show \<open>''{"productName":"Widget","visualDescription":"a blue box","sources":"none"}''
            = CHR ''{'' #
              ''"productName":"Widget","visualDescription":"a blue box","sources":"none"''
              @ [CHR ''}'']\<close>
      by simp
  qed
  have s: "get_sources described_reply = ([] :: int json list)"
    by (simp add: get_sources_def read_grounding_def described_reply_def)
  from record_frame
    [where generate_content = "reply_with described_reply" and loads = example_loads,
     OF g h l]
  obtain result where
    r: \<open>fetch_from_gemini (reply_with described_reply) example_loads ''Widget'' ''Germany'' False
         = ([GenerateContent (generate_content_args ''Widget'' ''Germany'' False),
             JsonLoads ''{"productName":"Widget","visualDescription":"a blue box","sources":"none"}''],
            Inr result)\<close>
    and f: "\<forall>k. k \<noteq> ''visualDescription'' \<and> k \<noteq> ''sources'' \<longrightarrow>
              map_of result k
                = map_of [(''productName'', JStr ''Widget''),
                          (''visualDescription'', JStr ''a blue box''),
                          (''sources'', JStr ''none'')] k"
    and so: "map_of result ''sources'' = Some (JArr (get_sources described_reply))"
    and vd: "map_of result ''visualDescription'' = None"
    by (elim exE conjE)
  have pn: "map_of result ''productName'' = Some (JStr ''Widget'')"
    using f [THEN spec, of "''productName''"] by simp
  have br: "map_of result ''brand'' = None"
    using f [THEN spec, of "''brand''"] by simp
  have "snd (fetch_from_gemini (reply_with described_reply) example_loads
                ''Widget'' ''Germany'' False) = Inr result"
    by (simp add: r)
  with pn br so vd s have
    "\<exists>result.
         snd (fetch_from_gemini (reply_with described_reply) example_loads
                ''Widget'' ''Germany'' False) = Inr result
         \<and> map_of result ''productName'' = Some (JStr ''Widget'')
         \<and> map_of result ''brand'' = None
         \<and> map_of result ''sources'' = Some (JArr [])
         \<and> map_of result ''visualDescription'' = None"
    by (intro exI [of _ result]) simp
  with l described_run show ?thesis by simp
qed

end
